theory Spec2Isabelle
  imports Complex_Main "HOL-Library.Word" "HOL-Library.Monad_Syntax"
begin

unbundle bit_operations_syntax

section \<open>Conventions of the embedding\<close>

text \<open>
  The development embeds the battle scorer of \<^verbatim>\<open>image_generator.py\<close>, the legendary
  list of \<^verbatim>\<open>pokemon_api.py\<close> and the duel state machine of \<^verbatim>\<open>duel_manager.py\<close>.

  \<^item> Python \<^verbatim>\<open>float\<close> values are modelled by exact reals: every product and sum is the
    mathematical one, rounding is not modelled.
  \<^item> Python \<^verbatim>\<open>str\<close> values are \<open>string\<close>; \<^verbatim>\<open>str.lower\<close> is modelled on ASCII letters,
    which is what the names served by the data provider consist of.
  \<^item> An uncaught Python exception (\<^verbatim>\<open>KeyError\<close>, \<^verbatim>\<open>IndexError\<close>, \<^verbatim>\<open>ValueError\<close>,
    \<^verbatim>\<open>StopIteration\<close>) is the value \<open>None\<close> of an \<open>option\<close> result.
  \<^item> A dictionary whose iteration order matters is an association list in insertion order.
  \<^item> Each coroutine (\<^verbatim>\<open>handle_message\<close>, \<^verbatim>\<open>handle_reaction\<close>) is modelled as one atomic
    step; calls to the chat platform (send, edit, delete, sleep) are assumed to succeed and
    leave the duel state alone, so they do not appear.
\<close>

section \<open>Python helpers\<close>

definition lower_char :: "char \<Rightarrow> char" where
  "lower_char c =
     (let n = (of_char c :: nat)
      in if of_char CHR ''A'' \<le> n \<and> n \<le> of_char CHR ''Z'' then char_of (n + 32) else c)"

definition lower :: "string \<Rightarrow> string" where
  "lower s = map lower_char s"

text \<open>A dict literal or a dict built by successive stores: a later store to a key replaces
  the value and keeps the key's position; a new key goes to the end.\<close>

fun dict_set :: "('k \<times> 'v) list \<Rightarrow> 'k \<Rightarrow> 'v \<Rightarrow> ('k \<times> 'v) list" where
  "dict_set [] k v = [(k, v)]"
| "dict_set ((k', v') # d) k v = (if k' = k then (k, v) # d else (k', v') # dict_set d k v)"

definition dict_of :: "('k \<times> 'v) list \<Rightarrow> ('k \<times> 'v) list" where
  "dict_of kvs = fold (\<lambda>(k, v) d. dict_set d k v) kvs []"

definition dict_get :: "('k \<times> 'v) list \<Rightarrow> 'k \<Rightarrow> 'v option" where
  "dict_get d k = map_of d k"

definition dict_keys :: "('k \<times> 'v) list \<Rightarrow> 'k list" where
  "dict_keys d = map fst d"

definition dict_values :: "('k \<times> 'v) list \<Rightarrow> 'v list" where
  "dict_values d = map snd d"

section \<open>The effectiveness table (image\_generator.py)\<close>

text \<open>The literal \<^verbatim>\<open>pokemon_go_effectiveness\<close>, entry by entry, with its repeated keys and
  with the two keys of the \<^verbatim>\<open>fighting\<close> row that start with a blank.\<close>

definition pokemon_go_effectiveness :: "(string \<times> (string \<times> real) list) list" where
  "pokemon_go_effectiveness = dict_of [
    (''normal'', dict_of [(''rock'', 0.625), (''ghost'', 0.391), (''steel'', 0.625)]),
    (''fire'', dict_of [(''fire'', 0.625), (''water'', 0.625), (''grass'', 1.6), (''ice'', 1.6),
       (''bug'', 1.6), (''rock'', 0.625), (''dragon'', 0.625), (''steel'', 1.6), (''fairy'', 0.625)]),
    (''water'', dict_of [(''fire'', 1.6), (''water'', 0.625), (''grass'', 0.625), (''ground'', 1.6),
       (''rock'', 1.6), (''dragon'', 0.625)]),
    (''electric'', dict_of [(''water'', 1.6), (''electric'', 0.625), (''grass'', 0.625),
       (''ground'', 0.391), (''flying'', 1.6), (''dragon'', 0.625), (''electric'', 0.625)]),
    (''grass'', dict_of [(''fire'', 0.625), (''water'', 1.6), (''grass'', 0.625), (''poison'', 0.625),
       (''ground'', 1.6), (''flying'', 0.625), (''bug'', 0.625), (''rock'', 1.6), (''dragon'', 0.625),
       (''steel'', 0.625)]),
    (''ice'', dict_of [(''fire'', 0.625), (''water'', 0.625), (''grass'', 1.6), (''ice'', 0.625),
       (''ground'', 1.6), (''flying'', 1.6), (''dragon'', 1.6), (''steel'', 0.625)]),
    (''fighting'', dict_of [(''normal'', 1.6), (''ice'', 1.6), ('' poison'', 0.625),
       (''flying'', 0.625), (''psychic'', 0.625), (''bug'', 0.625), (''rock'', 1.6),
       ('' ghost'', 0.391), (''dark'', 1.6), (''steel'', 1.6), (''fairy'', 0.625)]),
    (''poison'', dict_of [(''grass'', 1.6), (''poison'', 0.625), (''ground'', 0.625),
       (''rock'', 0.625), (''ghost'', 0.625), (''steel'', 0.391), (''fairy'', 1.6), (''bug'', 1.6),
       (''poison'', 0.625)]),
    (''ground'', dict_of [(''fire'', 1.6), (''electric'', 1.6), (''grass'', 0.625), (''poison'', 1.6),
       (''flying'', 0.391), (''bug'', 0.625), (''rock'', 1.6), (''steel'', 1.6), (''ground'', 0.625)]),
    (''flying'', dict_of [(''electric'', 0.625), (''grass'', 1.6), (''fighting'', 1.6), (''bug'', 1.6),
       (''rock'', 0.625), (''steel'', 0.625), (''flying'', 0.625)]),
    (''psychic'', dict_of [(''fighting'', 1.6), (''poison'', 1.6), (''psychic'', 0.625),
       (''dark'', 0.391), (''steel'', 0.625)]),
    (''bug'', dict_of [(''fire'', 0.625), (''grass'', 1.6), (''fighting'', 0.625), (''poison'', 0.625),
       (''flying'', 0.625), (''psychic'', 1.6), (''ghost'', 0.625), (''dark'', 1.6), (''steel'', 0.625),
       (''fairy'', 0.625), (''bug'', 0.625)]),
    (''rock'', dict_of [(''fire'', 1.6), (''ice'', 1.6), (''fighting'', 0.625), (''ground'', 0.625),
       (''flying'', 1.6), (''bug'', 1.6), (''steel'', 0.625), (''rock'', 0.625)]),
    (''ghost'', dict_of [(''normal'', 0.391), (''psychic'', 1.6), (''ghost'', 1.6), (''dark'', 0.625)]),
    (''dragon'', dict_of [(''dragon'', 1.6), (''steel'', 0.625), (''fairy'', 0.391)]),
    (''dark'', dict_of [(''fighting'', 0.625), (''psychic'', 1.6), (''ghost'', 1.6), (''dark'', 0.625),
       (''fairy'', 0.625)]),
    (''steel'', dict_of [(''fire'', 0.625), (''water'', 0.625), (''electric'', 0.625), (''ice'', 1.6),
       (''rock'', 1.6), (''steel'', 0.625), (''fairy'', 1.6)]),
    (''fairy'', dict_of [(''fire'', 0.625), (''fighting'', 1.6), (''poison'', 0.625), (''dragon'', 1.6),
       (''dark'', 1.6), (''steel'', 0.625), (''fairy'', 0.625)])]"

definition STAB_MULTIPLIER :: real where
  "STAB_MULTIPLIER = 1.2"

text \<open>The table entry for a pair, \<open>None\<close> when the guard
  \<^verbatim>\<open>attack_type in table and defense_type in table[attack_type]\<close> is false.\<close>

definition table_entry :: "string \<Rightarrow> string \<Rightarrow> real option" where
  "table_entry attack_type defense_type =
     (case dict_get pokemon_go_effectiveness attack_type of
        None \<Rightarrow> None
      | Some row \<Rightarrow> dict_get row defense_type)"

section \<open>Type advantage with the same-type bonus\<close>

text \<open>The body of the inner \<^verbatim>\<open>for defense_type in types2\<close> loop: the running product is
  multiplied by \<^verbatim>\<open>table[attack][defense] * stab\<close> when the pair has an entry, and is left
  alone otherwise.\<close>

definition defense_step :: "string \<Rightarrow> real \<Rightarrow> string \<Rightarrow> real \<Rightarrow> real" where
  "defense_step attack_type stab defense_type effectiveness =
     (case table_entry attack_type defense_type of
        Some m \<Rightarrow> effectiveness * (m * stab)
      | None \<Rightarrow> effectiveness)"

text \<open>The body of the outer \<^verbatim>\<open>for attack_type in types1\<close> loop.\<close>

definition attack_step :: "string list \<Rightarrow> string list \<Rightarrow> string \<Rightarrow> real \<Rightarrow> real" where
  "attack_step types1 types2 attack_type effectiveness =
     (let stab = (if attack_type \<in> set types1 then STAB_MULTIPLIER else 1.0)
      in fold (defense_step attack_type stab) types2 effectiveness)"

definition calculate_type_advantage_with_stab :: "string list \<Rightarrow> string list \<Rightarrow> real \<times> real" where
  "calculate_type_advantage_with_stab types1 types2 =
     (let effectiveness1 = fold (attack_step types1 types2) types1 1.0;
          effectiveness2 = fold (attack_step types2 types1) types2 1.0
      in (effectiveness1, effectiveness2))"

text \<open>The specification's reading, used for comparison only: \<open>effectivenessOf\<close> is the table
  entry with default 1, and the multiplier is the product over the attacking categories of
  1.2 times the product of \<open>effectivenessOf\<close> over the defending categories.\<close>

definition effectivenessOf :: "string \<Rightarrow> string \<Rightarrow> real" where
  "effectivenessOf a b = (case table_entry a b of Some m \<Rightarrow> m | None \<Rightarrow> 1.0)"

definition spec_type_multiplier :: "string list \<Rightarrow> string list \<Rightarrow> real" where
  "spec_type_multiplier A B =
     prod_list (map (\<lambda>a. 1.2 * prod_list (map (\<lambda>b. effectivenessOf a b) B)) A)"

text \<open>What the code computes, in closed form: one factor \<open>entry * 1.2\<close> for every ordered
  pair that has a table entry, and no factor at all for a pair without one.\<close>

definition entry_factors :: "string list \<Rightarrow> string list \<Rightarrow> real list" where
  "entry_factors A B =
     concat (map (\<lambda>a. concat (map (\<lambda>b. case table_entry a b of
                                             Some m \<Rightarrow> [m * STAB_MULTIPLIER]
                                           | None \<Rightarrow> []) B)) A)"

subsection \<open>The loops as products\<close>

lemma fold_defense_step:
  "fold (defense_step a stab) B e =
     e * prod_list (concat (map (\<lambda>b. case table_entry a b of
                                          Some m \<Rightarrow> [m * stab] | None \<Rightarrow> []) B))"
  by (induction B arbitrary: e) (simp_all add: defense_step_def split: option.split)

text \<open>Inside the outer loop the test \<^verbatim>\<open>attack_type in types1\<close> is always true, so the
  bonus is the constant 1.2.\<close>

lemma fold_attack_step:
  "set A \<subseteq> set T1 \<Longrightarrow>
     fold (attack_step T1 T2) A e = e * prod_list (entry_factors A T2)"
  by (induction A arbitrary: e)
     (simp_all add: attack_step_def entry_factors_def fold_defense_step)

lemma table_entry_normal_normal: "table_entry ''normal'' ''normal'' = None"
  by (simp add: table_entry_def pokemon_go_effectiveness_def dict_of_def dict_get_def)

text \<open>
  Claim C1, as stated, fails: for a normal-type attacker against a normal-type defender
  the table has no entry, the code multiplies nothing and returns 1, while the stated
  product is \<open>1.2 * 1\<close>.
\<close>

theorem type_advantage_spec_counterexample:
  "fst (calculate_type_advantage_with_stab [''normal''] [''normal''])
     \<noteq> spec_type_multiplier [''normal''] [''normal'']"
  by (simp add: calculate_type_advantage_with_stab_def attack_step_def defense_step_def
      table_entry_normal_normal spec_type_multiplier_def effectivenessOf_def)

text \<open>
  Claim C1, amended: the first multiplier returned by
  \<open>calculate_type_advantage_with_stab\<close> is the product, over every ordered pair of an
  attacking category of the first list and a defending category of the second list that
  has a table entry, of that entry times 1.2; a pair without an entry contributes no
  factor, not even the bonus. The second multiplier is the same computation with the two
  lists swapped.
\<close>

theorem type_advantage_closed_form:
  "calculate_type_advantage_with_stab A B =
     (prod_list (entry_factors A B), prod_list (entry_factors B A))"
  by (simp add: calculate_type_advantage_with_stab_def fold_attack_step)

section \<open>The battle scorer (image\_generator.py)\<close>

text \<open>The six statistics, as \<^verbatim>\<open>calculate_ivs\<close> returns them and as
  \<^verbatim>\<open>calculate_weighted_stats\<close> reads them.\<close>

record stats =
  hp :: int
  attack :: int
  defense :: int
  special_attack :: int
  special_defense :: int
  speed :: int

text \<open>The snapshot built by \<^verbatim>\<open>get_pokemon_data\<close>; the fields \<^verbatim>\<open>id\<close>, \<^verbatim>\<open>image_url\<close>,
  \<^verbatim>\<open>height\<close> and \<^verbatim>\<open>weight\<close> are only drawn and are left out.\<close>

record pokemon_data = stats +
  name :: string
  api_name :: string
  types :: "string list"

subsection \<open>The hash and its hexadecimal digest\<close>

text \<open>
  \<^verbatim>\<open>hashlib.md5\<close> belongs to the Python library, not to the repository: it enters as a
  parameter \<open>md5\<close> that maps the string to its 16-byte digest, read as a 128-bit number
  with the first byte on top. \<open>hexdigest\<close> renders it as Python does: 32 lower-case
  hexadecimal digits, the first byte first.
\<close>

type_synonym md5_fun = "string \<Rightarrow> 128 word"

definition hex_digit :: "nat \<Rightarrow> char" where
  "hex_digit n = ''0123456789abcdef'' ! n"

definition hexdigest :: "128 word \<Rightarrow> string" where
  "hexdigest w = map (\<lambda>i. hex_digit ((unat w div 16 ^ (31 - i)) mod 16)) [0..<32]"

text \<open>\<^verbatim>\<open>s[i:j]\<close> for \<open>0 \<le> i \<le> j\<close>.\<close>

definition py_slice :: "'a list \<Rightarrow> nat \<Rightarrow> nat \<Rightarrow> 'a list" where
  "py_slice s i j = take (j - i) (drop i s)"

text \<open>\<^verbatim>\<open>int(s, 16)\<close> on a string of hexadecimal digits; the empty string and a string
  with another character raise \<^verbatim>\<open>ValueError\<close>. (Python also accepts a sign, blanks
  around the number and underscores between digits; those inputs are not modelled.)\<close>

definition hex_value :: "char \<Rightarrow> nat option" where
  "hex_value c =
     (let n = (of_char c :: nat)
      in if 48 \<le> n \<and> n \<le> 57 then Some (n - 48)
         else if 97 \<le> n \<and> n \<le> 102 then Some (n - 87)
         else if 65 \<le> n \<and> n \<le> 70 then Some (n - 55)
         else None)"

fun parse_hex :: "nat \<Rightarrow> string \<Rightarrow> nat option" where
  "parse_hex acc [] = Some acc"
| "parse_hex acc (c # cs) =
     (case hex_value c of None \<Rightarrow> None | Some v \<Rightarrow> parse_hex (16 * acc + v) cs)"

definition py_int16 :: "string \<Rightarrow> int option" where
  "py_int16 s = (if s = [] then None else map_option int (parse_hex 0 s))"

subsection \<open>calculate\_ivs\<close>

definition calculate_ivs :: "md5_fun \<Rightarrow> string \<Rightarrow> stats option" where
  "calculate_ivs md5 pokemon_name =
     (let name_hash = hexdigest (md5 (lower pokemon_name)) in
      do {
        h0 \<leftarrow> py_int16 (py_slice name_hash 0 2);
        h1 \<leftarrow> py_int16 (py_slice name_hash 2 4);
        h2 \<leftarrow> py_int16 (py_slice name_hash 4 6);
        h3 \<leftarrow> py_int16 (py_slice name_hash 6 8);
        h4 \<leftarrow> py_int16 (py_slice name_hash 8 10);
        h5 \<leftarrow> py_int16 (py_slice name_hash 10 12);
        Some \<lparr>hp = h0 mod 32, attack = h1 mod 32, defense = h2 mod 32,
              special_attack = h3 mod 32, special_defense = h4 mod 32, speed = h5 mod 32\<rparr>
      })"

subsection \<open>calculate\_weighted\_stats and calculate\_battle\_score\<close>

definition calculate_weighted_stats :: "stats \<Rightarrow> real" where
  "calculate_weighted_stats s =
     (let weighted_stats =
            real_of_int (hp s) * 0.8 +
            real_of_int (attack s) * 1.2 +
            real_of_int (defense s) * 0.9 +
            real_of_int (special_attack s) * 1.2 +
            real_of_int (special_defense s) * 0.9 +
            real_of_int (speed s) * 1.0
      in weighted_stats / 100)"

text \<open>The dictionary \<^verbatim>\<open>effective_stats\<close>: each base statistic plus its boost.\<close>

definition effective_stats :: "pokemon_data \<Rightarrow> stats \<Rightarrow> stats" where
  "effective_stats pokemon ivs =
     \<lparr>hp = hp pokemon + hp ivs,
      attack = attack pokemon + attack ivs,
      defense = defense pokemon + defense ivs,
      special_attack = special_attack pokemon + special_attack ivs,
      special_defense = special_defense pokemon + special_defense ivs,
      speed = speed pokemon + speed ivs\<rparr>"

definition calculate_battle_score ::
    "md5_fun \<Rightarrow> pokemon_data \<Rightarrow> pokemon_data \<Rightarrow> (real \<times> real) option" where
  "calculate_battle_score md5 pokemon1 pokemon2 =
     do {
       ivs1 \<leftarrow> calculate_ivs md5 (name pokemon1);
       ivs2 \<leftarrow> calculate_ivs md5 (name pokemon2);
       let effective_stats1 = effective_stats pokemon1 ivs1;
       let effective_stats2 = effective_stats pokemon2 ivs2;
       let (advantage1, advantage2) =
             calculate_type_advantage_with_stab (types pokemon1) (types pokemon2);
       let battle_score1 = calculate_weighted_stats effective_stats1 * advantage1;
       let battle_score2 = calculate_weighted_stats effective_stats2 * advantage2;
       Some (battle_score1, battle_score2)
     }"

text \<open>The specification's \<open>weightedStats\<close>, on the six numbers.\<close>

definition spec_weightedStats :: "int \<Rightarrow> int \<Rightarrow> int \<Rightarrow> int \<Rightarrow> int \<Rightarrow> int \<Rightarrow> real" where
  "spec_weightedStats h a d sa sd sp =
     (real_of_int h * 0.8 + real_of_int a * 1.2 + real_of_int d * 0.9 +
      real_of_int sa * 1.2 + real_of_int sd * 0.9 + real_of_int sp * 1.0) / 100"

subsection \<open>The digest slices always parse\<close>

lemma upt32:
  "[0..<32] = [0,1,2,3,4,5,6,7,8,9,10,11,12,13,14,15,16,17,18,19,20,21,22,23,24,25,26,27,
               28,29,30,31]"
  by (simp add: upt_rec)

lemma hex_value_hex_digit_all:
  "list_all (\<lambda>n. hex_value (hex_digit n) = Some n) [0..<16]"
  by (simp add: upt_rec hex_value_def hex_digit_def)

lemma hex_value_hex_digit: "n < 16 \<Longrightarrow> hex_value (hex_digit n) = Some n"
  using hex_value_hex_digit_all by (simp add: list_all_iff)

lemma py_int16_pair:
  "a < 16 \<Longrightarrow> b < 16 \<Longrightarrow> py_int16 [hex_digit a, hex_digit b] = Some (int (16 * a + b))"
  by (simp add: py_int16_def hex_value_hex_digit)

lemma py_int16_slices:
  "py_int16 (py_slice (hexdigest w) 0 2) =
     Some (int (16 * ((unat w div 16 ^ 31) mod 16) + (unat w div 16 ^ 30) mod 16))"
  "py_int16 (py_slice (hexdigest w) 2 4) =
     Some (int (16 * ((unat w div 16 ^ 29) mod 16) + (unat w div 16 ^ 28) mod 16))"
  "py_int16 (py_slice (hexdigest w) 4 6) =
     Some (int (16 * ((unat w div 16 ^ 27) mod 16) + (unat w div 16 ^ 26) mod 16))"
  "py_int16 (py_slice (hexdigest w) 6 8) =
     Some (int (16 * ((unat w div 16 ^ 25) mod 16) + (unat w div 16 ^ 24) mod 16))"
  "py_int16 (py_slice (hexdigest w) 8 10) =
     Some (int (16 * ((unat w div 16 ^ 23) mod 16) + (unat w div 16 ^ 22) mod 16))"
  "py_int16 (py_slice (hexdigest w) 10 12) =
     Some (int (16 * ((unat w div 16 ^ 21) mod 16) + (unat w div 16 ^ 20) mod 16))"
  unfolding hexdigest_def upt32 py_slice_def
  by (simp_all add: py_int16_pair)

lemma mod32_le: "(x::int) mod 32 \<le> 31"
  using pos_mod_bound [of 32 x] by simp

lemma calculate_ivs_total:
  "\<exists>v. calculate_ivs md5 n = Some v \<and>
     0 \<le> hp v \<and> hp v \<le> 31 \<and> 0 \<le> attack v \<and> attack v \<le> 31 \<and>
     0 \<le> defense v \<and> defense v \<le> 31 \<and>
     0 \<le> special_attack v \<and> special_attack v \<le> 31 \<and>
     0 \<le> special_defense v \<and> special_defense v \<le> 31 \<and>
     0 \<le> speed v \<and> speed v \<le> 31"
  by (simp add: calculate_ivs_def py_int16_slices mod32_le)

lemma calculate_battle_score_total: "\<exists>s1 s2. calculate_battle_score md5 p q = Some (s1, s2)"
proof -
  obtain v where v: "calculate_ivs md5 (name p) = Some v"
    using calculate_ivs_total [of md5 "name p"] by blast
  obtain w where w: "calculate_ivs md5 (name q) = Some w"
    using calculate_ivs_total [of md5 "name q"] by blast
  show ?thesis
    by (simp add: calculate_battle_score_def v w split: prod.split)
qed

lemma lower_pikachu: "lower ''Pikachu'' = lower ''PIKACHU''"
  by code_simp

text \<open>
  Claim C8: for every creature name, \<open>calculate_ivs\<close> returns (it never raises) six
  integers, each between 0 and 31, and it depends on the name only through the lower-cased
  name: two names that are equal up to case get the same six values.
\<close>

theorem calculate_ivs_range_and_case:
  "(\<exists>v. calculate_ivs md5 n = Some v \<and>
      0 \<le> hp v \<and> hp v \<le> 31 \<and> 0 \<le> attack v \<and> attack v \<le> 31 \<and>
      0 \<le> defense v \<and> defense v \<le> 31 \<and>
      0 \<le> special_attack v \<and> special_attack v \<le> 31 \<and>
      0 \<le> special_defense v \<and> special_defense v \<le> 31 \<and>
      0 \<le> speed v \<and> speed v \<le> 31)
   \<and> (lower n = lower n' \<longrightarrow> calculate_ivs md5 n = calculate_ivs md5 n')"
  using calculate_ivs_total [of md5 n] by (simp add: calculate_ivs_def)

theorem calculate_ivs_range_and_case_witness:
  "\<forall>md5. lower ''Pikachu'' = lower ''PIKACHU'' \<and>
     calculate_ivs md5 ''Pikachu'' = calculate_ivs md5 ''PIKACHU''"
  using calculate_ivs_range_and_case [of _ "''Pikachu''" "''PIKACHU''"] lower_pikachu
  by simp

text \<open>
  Claim C7: for every pair of creatures A and B, \<open>calculate_battle_score\<close> returns the
  pair (weightedStats of A's base statistics plus A's name-derived boosts, times A's
  multiplier; the same for B), the multipliers being those of
  \<open>calculate_type_advantage_with_stab\<close> on the two category lists and weightedStats being
  (hp*0.8 + attack*1.2 + defense*0.9 + special_attack*1.2 + special_defense*0.9 +
  speed*1.0) / 100. The result is a function of the two creatures alone.
\<close>

theorem calculate_battle_score_formula:
  "\<exists>bA bB.
     calculate_ivs md5 (name A) = Some bA \<and>
     calculate_ivs md5 (name B) = Some bB \<and>
     calculate_battle_score md5 A B =
       Some (spec_weightedStats (hp A + hp bA) (attack A + attack bA)
               (defense A + defense bA) (special_attack A + special_attack bA)
               (special_defense A + special_defense bA) (speed A + speed bA)
             * fst (calculate_type_advantage_with_stab (types A) (types B)),
             spec_weightedStats (hp B + hp bB) (attack B + attack bB)
               (defense B + defense bB) (special_attack B + special_attack bB)
               (special_defense B + special_defense bB) (speed B + speed bB)
             * snd (calculate_type_advantage_with_stab (types A) (types B)))"
proof -
  obtain v where v: "calculate_ivs md5 (name A) = Some v"
    using calculate_ivs_total [of md5 "name A"] by blast
  obtain w where w: "calculate_ivs md5 (name B) = Some w"
    using calculate_ivs_total [of md5 "name B"] by blast
  show ?thesis
    by (simp add: calculate_battle_score_def v w calculate_weighted_stats_def
        effective_stats_def spec_weightedStats_def split: prod.split)
qed

section \<open>The legendary list (pokemon\_api.py)\<close>

definition LEGENDARY_POKEMON :: "string list" where
  "LEGENDARY_POKEMON = [
    ''articuno'', ''zapdos'', ''moltres'', ''mewtwo'', ''mew'',
    ''raikou'', ''entei'', ''suicune'', ''lugia'', ''ho-oh'', ''celebi'',
    ''regirock'', ''regice'', ''registeel'', ''latias'', ''latios'', ''kyogre'', ''groudon'',
    ''rayquaza'', ''jirachi'', ''deoxys'',
    ''uxie'', ''mesprit'', ''azelf'', ''dialga'', ''palkia'', ''heatran'', ''regigigas'',
    ''giratina'', ''cresselia'', ''darkrai'', ''shaymin'', ''arceus'',
    ''victini'', ''cobalion'', ''terrakion'', ''virizion'', ''tornadus'', ''thundurus'',
    ''reshiram'', ''zekrom'', ''landorus'', ''kyurem'', ''keldeo'', ''meloetta'', ''genesect'',
    ''xerneas'', ''yveltal'', ''zygarde'', ''diancie'', ''hoopa'', ''volcanion'',
    ''tapu koko'', ''tapu lele'', ''tapu bulu'', ''tapu fini'', ''cosmog'', ''cosmoem'',
    ''solgaleo'', ''lunala'', ''nihilego'', ''buzzwole'', ''pheromosa'', ''xurkitree'',
    ''celesteela'', ''kartana'', ''guzzlord'', ''necrozma'', ''magearna'', ''marshadow'',
    ''poipole'', ''naganadel'', ''stakataka'', ''blacephalon'', ''zeraora'', ''meltan'',
    ''melmetal'',
    ''zacian'', ''zamazenta'', ''eternatus'', ''kubfu'', ''urshifu'', ''zarude'', ''regieleki'',
    ''regidrago'', ''glastrier'', ''spectrier'', ''calyrex'']"

definition is_legendary :: "string \<Rightarrow> bool" where
  "is_legendary pokemon_name = (lower pokemon_name \<in> set LEGENDARY_POKEMON)"

section \<open>The duel (duel\_manager.py)\<close>

subsection \<open>More Python helpers\<close>

text \<open>\<^verbatim>\<open>xs[i]\<close> for \<open>i \<ge> 0\<close>, with its \<^verbatim>\<open>IndexError\<close>.\<close>

definition py_nth :: "'a list \<Rightarrow> nat \<Rightarrow> 'a option" where
  "py_nth xs i = (if i < length xs then Some (xs ! i) else None)"

text \<open>\<^verbatim>\<open>d[k] += 1\<close>, with its \<^verbatim>\<open>KeyError\<close>.\<close>

definition dict_incr :: "('k \<times> int) list \<Rightarrow> 'k \<Rightarrow> ('k \<times> int) list option" where
  "dict_incr d k = (case dict_get d k of None \<Rightarrow> None | Some v \<Rightarrow> Some (dict_set d k (v + 1)))"

text \<open>A \<^verbatim>\<open>for\<close> loop whose body may raise.\<close>

fun fold_opt :: "('a \<Rightarrow> 's \<Rightarrow> 's option) \<Rightarrow> 'a list \<Rightarrow> 's \<Rightarrow> 's option" where
  "fold_opt f [] s = Some s"
| "fold_opt f (x # xs) s = (case f x s of None \<Rightarrow> None | Some s' \<Rightarrow> fold_opt f xs s')"

text \<open>\<^verbatim>\<open>max(d, key=d.get)\<close>: the first key, in iteration order, whose value is maximal;
  \<^verbatim>\<open>ValueError\<close> on an empty dictionary.\<close>

definition py_max_key :: "('k \<times> int) list \<Rightarrow> 'k option" where
  "py_max_key d =
     (case d of
        [] \<Rightarrow> None
      | kv # rest \<Rightarrow> Some (fst (fold (\<lambda>kv' best. if snd best < snd kv' then kv' else best) rest kv)))"

text \<open>\<^verbatim>\<open>max(xs)\<close> on a list of numbers.\<close>

definition py_max :: "real list \<Rightarrow> real option" where
  "py_max xs = (case xs of [] \<Rightarrow> None | x # rest \<Rightarrow> Some (fold (\<lambda>y best. if best < y then y else best) rest x))"

text \<open>\<^verbatim>\<open>xs[-20:]\<close>.\<close>

definition py_last20 :: "'a list \<Rightarrow> 'a list" where
  "py_last20 xs = drop (length xs - 20) xs"

text \<open>\<^verbatim>\<open>s.split('-')[0]\<close>.\<close>

definition split_dash_first :: "string \<Rightarrow> string" where
  "split_dash_first s = takeWhile (\<lambda>c. c \<noteq> CHR ''-'') s"

subsection \<open>Data\<close>

text \<open>A chat user. Users compare by \<^verbatim>\<open>id\<close>, so \<^verbatim>\<open>a != b\<close> and \<^verbatim>\<open>a in players\<close> look at
  \<open>pid\<close> only.\<close>

record player =
  pid :: int
  pname :: string
  bot :: bool

definition player_in :: "player \<Rightarrow> player list \<Rightarrow> bool" where
  "player_in p ps = (pid p \<in> set (map pid ps))"

text \<open>An entry of \<^verbatim>\<open>round_history\<close>: the creature names and battle scores in participant
  order (\<^verbatim>\<open>pokemon1\<close>, \<^verbatim>\<open>score1\<close>, ...) and the \<^verbatim>\<open>winner\<close> text.\<close>

record round_data =
  rd_pokemon :: "string list"
  rd_scores :: "real list"
  rd_winner :: string

definition tie_marker :: string where
  "tie_marker = ''Tie (no points awarded)''"

text \<open>The class \<^verbatim>\<open>Duel\<close>; \<^verbatim>\<open>ready_message\<close> is a handle of the chat platform and is
  left out.\<close>

record duel =
  players :: "player list"
  rounds :: int
  channel :: int
  duel_type :: string
  scores :: "(int \<times> int) list"
  current_round :: int
  ready_status :: "(int \<times> bool) list"
  pokemon :: "(int \<times> pokemon_data option) list"
  countdown_active :: bool
  selection_phase :: bool
  used_pokemon :: "string set"
  duel_ended :: bool
  last_selection_time :: real
  selection_cooldown :: real
  waiting_for_selection :: bool
  round_history :: "round_data list"
  is_triple_duel :: bool

text \<open>The comprehension \<^verbatim>\<open>{player.id: v for player in players}\<close>.\<close>

definition dict_comp :: "player list \<Rightarrow> 'v \<Rightarrow> (int \<times> 'v) list" where
  "dict_comp ps v = dict_of (map (\<lambda>p. (pid p, v)) ps)"

definition Duel_init :: "player list \<Rightarrow> int \<Rightarrow> int \<Rightarrow> string \<Rightarrow> duel" where
  "Duel_init ps r ch dt =
     \<lparr>players = ps, rounds = r, channel = ch, duel_type = dt,
      scores = dict_comp ps 0,
      current_round = 0,
      ready_status = dict_comp ps False,
      pokemon = dict_comp ps None,
      countdown_active = False,
      selection_phase = False,
      used_pokemon = {},
      duel_ended = False,
      last_selection_time = 0,
      selection_cooldown = 3,
      waiting_for_selection = False,
      round_history = [],
      is_triple_duel = (length ps = 3)\<rparr>"

text \<open>The record written at the end of a match. The two shapes of the source (keys
  \<^verbatim>\<open>player1..3\<close>, \<^verbatim>\<open>score1..3\<close> and \<^verbatim>\<open>losers\<close> for three participants; \<^verbatim>\<open>player1..2\<close>,
  \<^verbatim>\<open>score1..2\<close> and \<^verbatim>\<open>loser\<close> for two) are one record with lists; \<open>hr_losers\<close> holds the
  list \<^verbatim>\<open>losers\<close>, or the single \<^verbatim>\<open>loser\<close> (empty for \<^verbatim>\<open>None\<close>).\<close>

record duel_record =
  hr_timestamp :: string
  hr_players :: "int list"
  hr_names :: "string list"
  hr_scores :: "int list"
  hr_rounds :: int
  hr_duel_type :: string
  hr_winner :: int
  hr_losers :: "int list"
  hr_is_triple :: bool

text \<open>The class \<^verbatim>\<open>DuelManager\<close>. The key \<^verbatim>\<open>str(player.id)\<close> of \<^verbatim>\<open>duel_history\<close> is
  identified with the id, \<^verbatim>\<open>str\<close> being one-to-one on integers.\<close>

record manager =
  active_duels :: "int \<rightharpoonup> duel"
  completed_duels :: "int \<rightharpoonup> duel"
  duel_history :: "int \<rightharpoonup> duel_record list"

text \<open>What a handler reads from outside the process: the clock, the date stamp, and the
  answers of the creature data provider.\<close>

record world =
  now :: real
  timestamp :: string
  get_pokemon_data :: "string \<Rightarrow> pokemon_data option"
  get_evolution_stage :: "string \<Rightarrow> int"

record message =
  m_channel :: int
  author :: player
  content :: string

record reaction =
  r_channel :: int
  r_emoji :: string

definition check_mark :: string where
  "check_mark = [char_of (226::nat), char_of (156::nat), char_of (133::nat)]"

subsection \<open>validate\_pokemon\_for\_duel\<close>

definition validate_pokemon_for_duel ::
    "world \<Rightarrow> pokemon_data \<Rightarrow> string \<Rightarrow> string set \<Rightarrow> bool \<times> string" where
  "validate_pokemon_for_duel w pokemon_data dtype used =
     (let pokemon_name = lower (name pokemon_data) in
      if pokemon_name \<in> used then (False, ''This Pokemon has already been used in this duel!'')
      else
        let base_name = split_dash_first (api_name pokemon_data) in
        if dtype = ''1st-evolution'' then
          (if get_evolution_stage w (api_name pokemon_data) \<noteq> 1
           then (False, ''Only 1st evolution Pokemon are allowed in this duel!'')
           else (True, ''Valid''))
        else if dtype = ''2nd-evolution'' then
          (if get_evolution_stage w (api_name pokemon_data) \<noteq> 2
           then (False, ''Only 2nd evolution Pokemon are allowed in this duel!'')
           else (True, ''Valid''))
        else if dtype = ''legendaries'' then
          (if \<not> (is_legendary (api_name pokemon_data) \<or> is_legendary base_name)
           then (False, ''Only Legendary Pokemon are allowed in this duel!'')
           else (True, ''Valid''))
        else if dtype = ''normal'' then
          (if is_legendary (api_name pokemon_data) \<or> is_legendary base_name
           then (False, ''Legendary Pokemon are not allowed in normal duels!'')
           else (True, ''Valid''))
        else (True, ''Valid''))"

subsection \<open>add\_to\_history and end\_duel\<close>

definition needed_wins :: "duel \<Rightarrow> int" where
  "needed_wins d = rounds d div 2 + 1"

text \<open>The test \<^verbatim>\<open>any(score >= needed_wins for score in duel.scores.values())\<close>.\<close>

definition threshold_reached :: "duel \<Rightarrow> bool" where
  "threshold_reached d = list_ex (\<lambda>score. needed_wins d \<le> score) (dict_values (scores d))"

definition make_duel_record :: "world \<Rightarrow> duel \<Rightarrow> int \<Rightarrow> player list \<Rightarrow> duel_record option" where
  "make_duel_record w d winner_id losers =
     (if is_triple_duel d then
        (case players d of
           [player1, player2, player3] \<Rightarrow>
             do {
               score1 \<leftarrow> dict_get (scores d) (pid player1);
               score2 \<leftarrow> dict_get (scores d) (pid player2);
               score3 \<leftarrow> dict_get (scores d) (pid player3);
               Some \<lparr>hr_timestamp = timestamp w,
                     hr_players = [pid player1, pid player2, pid player3],
                     hr_names = [pname player1, pname player2, pname player3],
                     hr_scores = [score1, score2, score3],
                     hr_rounds = rounds d, hr_duel_type = duel_type d,
                     hr_winner = winner_id, hr_losers = map pid losers,
                     hr_is_triple = True\<rparr>
             }
         | _ \<Rightarrow> None)
      else
        (case players d of
           [player1, player2] \<Rightarrow>
             do {
               score1 \<leftarrow> dict_get (scores d) (pid player1);
               score2 \<leftarrow> dict_get (scores d) (pid player2);
               Some \<lparr>hr_timestamp = timestamp w,
                     hr_players = [pid player1, pid player2],
                     hr_names = [pname player1, pname player2],
                     hr_scores = [score1, score2],
                     hr_rounds = rounds d, hr_duel_type = duel_type d,
                     hr_winner = winner_id,
                     hr_losers = (case losers of [] \<Rightarrow> [] | l # _ \<Rightarrow> [pid l]),
                     hr_is_triple = False\<rparr>
             }
         | _ \<Rightarrow> None))"

text \<open>The first loop of \<^verbatim>\<open>add_to_history\<close>: append the record to each participant's list,
  creating the list when the key is new.\<close>

definition append_record ::
    "duel_record \<Rightarrow> player \<Rightarrow> (int \<rightharpoonup> duel_record list) \<Rightarrow> (int \<rightharpoonup> duel_record list)" where
  "append_record r p h = h(pid p \<mapsto> (case h (pid p) of None \<Rightarrow> [] | Some l \<Rightarrow> l) @ [r])"

text \<open>The second loop: keep the last 20 records of each participant.\<close>

definition trim_history ::
    "player \<Rightarrow> (int \<rightharpoonup> duel_record list) \<Rightarrow> (int \<rightharpoonup> duel_record list) option" where
  "trim_history p h =
     (case h (pid p) of
        None \<Rightarrow> None
      | Some l \<Rightarrow> Some (if 20 < length l then h(pid p \<mapsto> py_last20 l) else h))"

definition add_to_history :: "world \<Rightarrow> manager \<Rightarrow> duel \<Rightarrow> int \<Rightarrow> player list \<Rightarrow> manager option" where
  "add_to_history w mgr d winner_id losers =
     do {
       duel_record \<leftarrow> make_duel_record w d winner_id losers;
       let h1 = fold (append_record duel_record) (players d) (duel_history mgr);
       h2 \<leftarrow> fold_opt trim_history (players d) h1;
       Some (mgr\<lparr>duel_history := h2\<rparr>)
     }"

text \<open>\<^verbatim>\<open>end_duel\<close>. The announcement reads \<^verbatim>\<open>losers[0]\<close> (and \<^verbatim>\<open>losers[1]\<close> in a match of
  three); the reads are kept for their \<^verbatim>\<open>IndexError\<close>.\<close>

definition end_duel :: "world \<Rightarrow> manager \<Rightarrow> duel \<Rightarrow> int \<Rightarrow> manager option" where
  "end_duel w mgr d ch =
     do {
       winner_id \<leftarrow> py_max_key (scores d);
       winner \<leftarrow> find (\<lambda>player. pid player = winner_id) (players d);
       let losers = filter (\<lambda>player. pid player \<noteq> winner_id) (players d);
       mgr1 \<leftarrow> add_to_history w mgr d winner_id losers;
       l0 \<leftarrow> py_nth losers 0;
       l1 \<leftarrow> (if is_triple_duel d then py_nth losers 1 else Some l0);
       let d' = d\<lparr>duel_ended := True\<rparr>;
       Some (mgr1\<lparr>completed_duels := (completed_duels mgr1)(ch \<mapsto> d'),
                  active_duels := (active_duels mgr1)(ch := None)\<rparr>)
     }"

subsection \<open>handle\_reaction\<close>

definition handle_reaction :: "manager \<Rightarrow> reaction \<Rightarrow> player \<Rightarrow> manager" where
  "handle_reaction mgr r user =
     (case active_duels mgr (r_channel r) of
        None \<Rightarrow> mgr
      | Some d \<Rightarrow>
          if r_emoji r \<noteq> check_mark then mgr
          else if duel_ended d then mgr
          else if pid user \<notin> set (dict_keys (ready_status d)) then mgr
          else
            let d1 = d\<lparr>ready_status := dict_set (ready_status d) (pid user) True\<rparr>;
                d2 = (if list_all (\<lambda>b. b) (dict_values (ready_status d1)) \<and> \<not> countdown_active d1
                      then d1\<lparr>countdown_active := True,
                              selection_phase := True,
                              ready_status := dict_comp (players d1) False,
                              waiting_for_selection := True\<rparr>
                      else d1)
            in mgr\<lparr>active_duels := (active_duels mgr)(r_channel r \<mapsto> d2)\<rparr>)"

subsection \<open>handle\_message\<close>

text \<open>A stored selection used as a creature: \<^verbatim>\<open>duel.pokemon[k]\<close> raises \<^verbatim>\<open>KeyError\<close> on a
  missing key, and a stored \<^verbatim>\<open>None\<close> raises \<^verbatim>\<open>TypeError\<close> as soon as it is subscripted.\<close>

definition selected :: "duel \<Rightarrow> int \<Rightarrow> pokemon_data option" where
  "selected d k = (case dict_get (pokemon d) k of Some (Some pd) \<Rightarrow> Some pd | _ \<Rightarrow> None)"

text \<open>The penalty loop: every participant other than the author gains a point.\<close>

definition award_opponents :: "player \<Rightarrow> duel \<Rightarrow> duel option" where
  "award_opponents a d =
     map_option (\<lambda>sc. d\<lparr>scores := sc\<rparr>)
       (fold_opt (\<lambda>opponent sc. if pid opponent \<noteq> pid a then dict_incr sc (pid opponent) else Some sc)
          (players d) (scores d))"

text \<open>The branch \<^verbatim>\<open>if not is_valid\<close>.\<close>

definition reject_selection :: "world \<Rightarrow> manager \<Rightarrow> duel \<Rightarrow> message \<Rightarrow> (manager \<times> bool) option" where
  "reject_selection w mgr d m =
     do {
       d1 \<leftarrow> award_opponents (author m) d;
       if threshold_reached d1 then
         do { mgr' \<leftarrow> end_duel w mgr d1 (m_channel m); Some (mgr', True) }
       else
         Some (mgr\<lparr>active_duels := (active_duels mgr)(m_channel m \<mapsto>
                  d1\<lparr>pokemon := dict_comp (players d1) None,
                     countdown_active := False,
                     selection_phase := False,
                     waiting_for_selection := False\<rparr>)\<rparr>, True)
     }"

text \<open>The battle scores of a round: for three participants, each one's average against the
  next two (cyclically); for two, the pair of \<open>calculate_battle_score\<close>.\<close>

definition triple_score :: "md5_fun \<Rightarrow> pokemon_data list \<Rightarrow> nat \<Rightarrow> real option" where
  "triple_score md5 pokemon_list i =
     do {
       p \<leftarrow> py_nth pokemon_list i;
       q1 \<leftarrow> py_nth pokemon_list ((i + 1) mod 3);
       s12 \<leftarrow> calculate_battle_score md5 p q1;
       q2 \<leftarrow> py_nth pokemon_list ((i + 2) mod 3);
       s34 \<leftarrow> calculate_battle_score md5 p q2;
       Some ((fst s12 + fst s34) / 2)
     }"

definition battle_scores_of :: "md5_fun \<Rightarrow> duel \<Rightarrow> real list option" where
  "battle_scores_of md5 d =
     (if is_triple_duel d then
        do {
          pokemon_list \<leftarrow> those (map (\<lambda>player. selected d (pid player)) (players d));
          those (map (triple_score md5 pokemon_list) [0..<length pokemon_list])
        }
      else
        do {
          p0 \<leftarrow> py_nth (players d) 0;
          pokemon1 \<leftarrow> selected d (pid p0);
          p1 \<leftarrow> py_nth (players d) 1;
          pokemon2 \<leftarrow> selected d (pid p1);
          s \<leftarrow> calculate_battle_score md5 pokemon1 pokemon2;
          Some [fst s, snd s]
        })"

text \<open>Lines 536 to 573: the round record and the point of the round.\<close>

definition decide_round :: "duel \<Rightarrow> real list \<Rightarrow> (round_data \<times> duel) option" where
  "decide_round d battle_scores =
     (if is_triple_duel d then
        do {
          p0 \<leftarrow> py_nth (players d) 0;  n0 \<leftarrow> selected d (pid p0);
          p1 \<leftarrow> py_nth (players d) 1;  n1 \<leftarrow> selected d (pid p1);
          p2 \<leftarrow> py_nth (players d) 2;  n2 \<leftarrow> selected d (pid p2);
          s0 \<leftarrow> py_nth battle_scores 0;
          s1 \<leftarrow> py_nth battle_scores 1;
          s2 \<leftarrow> py_nth battle_scores 2;
          max_score \<leftarrow> py_max battle_scores;
          let rd = \<lparr>rd_pokemon = [name n0, name n1, name n2], rd_scores = [s0, s1, s2],
                    rd_winner = []\<rparr>;
          let winners = filter (\<lambda>i. battle_scores ! i = max_score) [0..<length battle_scores];
          if length winners = 1 then
            do {
              wp \<leftarrow> py_nth (players d) (hd winners);
              sc \<leftarrow> dict_incr (scores d) (pid wp);
              Some (rd\<lparr>rd_winner := pname wp\<rparr>, d\<lparr>scores := sc\<rparr>)
            }
          else Some (rd\<lparr>rd_winner := tie_marker\<rparr>, d)
        }
      else
        do {
          p0 \<leftarrow> py_nth (players d) 0;  n0 \<leftarrow> selected d (pid p0);
          p1 \<leftarrow> py_nth (players d) 1;  n1 \<leftarrow> selected d (pid p1);
          s0 \<leftarrow> py_nth battle_scores 0;
          s1 \<leftarrow> py_nth battle_scores 1;
          let rd = \<lparr>rd_pokemon = [name n0, name n1], rd_scores = [s0, s1], rd_winner = []\<rparr>;
          if s1 < s0 then
            do { sc \<leftarrow> dict_incr (scores d) (pid p0);
                 Some (rd\<lparr>rd_winner := pname p0\<rparr>, d\<lparr>scores := sc\<rparr>) }
          else if s0 < s1 then
            do { sc \<leftarrow> dict_incr (scores d) (pid p1);
                 Some (rd\<lparr>rd_winner := pname p1\<rparr>, d\<lparr>scores := sc\<rparr>) }
          else Some (rd\<lparr>rd_winner := tie_marker\<rparr>, d)
        })"

text \<open>The branch \<^verbatim>\<open>if all(duel.pokemon.values())\<close>.\<close>

definition resolve_round ::
    "md5_fun \<Rightarrow> world \<Rightarrow> manager \<Rightarrow> duel \<Rightarrow> message \<Rightarrow> (manager \<times> bool) option" where
  "resolve_round md5 w mgr d m =
     do {
       battle_scores \<leftarrow> battle_scores_of md5 d;
       rd_d \<leftarrow> decide_round d battle_scores;
       let d2 = (snd rd_d)\<lparr>round_history := round_history (snd rd_d) @ [fst rd_d],
                          waiting_for_selection := False,
                          selection_phase := False,
                          current_round := current_round (snd rd_d) + 1\<rparr>;
       if threshold_reached d2 then
         do { mgr' \<leftarrow> end_duel w mgr d2 (m_channel m); Some (mgr', True) }
       else
         Some (mgr\<lparr>active_duels := (active_duels mgr)(m_channel m \<mapsto>
                  d2\<lparr>pokemon := dict_comp (players d2) None,
                     countdown_active := False,
                     waiting_for_selection := True\<rparr>)\<rparr>, True)
     }"

text \<open>The test \<^verbatim>\<open>all(duel.pokemon.values())\<close> and what follows it.\<close>

definition after_selection ::
    "md5_fun \<Rightarrow> world \<Rightarrow> manager \<Rightarrow> duel \<Rightarrow> message \<Rightarrow> (manager \<times> bool) option" where
  "after_selection md5 w mgr d m =
     (if list_all (\<lambda>v. v \<noteq> None) (dict_values (pokemon d)) then resolve_round md5 w mgr d m
      else Some (mgr\<lparr>active_duels := (active_duels mgr)(m_channel m \<mapsto> d)\<rparr>, True))"

definition handle_message ::
    "md5_fun \<Rightarrow> world \<Rightarrow> manager \<Rightarrow> message \<Rightarrow> (manager \<times> bool) option" where
  "handle_message md5 w mgr m =
     (case active_duels mgr (m_channel m) of
        None \<Rightarrow> Some (mgr, False)
      | Some d \<Rightarrow>
          if duel_ended d then Some (mgr, False)
          else if \<not> player_in (author m) (players d) then Some (mgr, False)
          else if selection_phase d \<and> waiting_for_selection d then
            (let current_time = now w in
             if current_time - last_selection_time d < selection_cooldown d then Some (mgr, True)
             else
               (case dict_get (pokemon d) (pid (author m)) of
                  None \<Rightarrow> None
                | Some (Some chosen) \<Rightarrow> after_selection md5 w mgr d m
                | Some None \<Rightarrow>
                    (case get_pokemon_data w (content m) of
                       None \<Rightarrow> Some (mgr, True)
                     | Some pokemon_data \<Rightarrow>
                         if \<not> fst (validate_pokemon_for_duel w pokemon_data (duel_type d)
                                     (used_pokemon d))
                         then reject_selection w mgr d m
                         else after_selection md5 w mgr
                                (d\<lparr>pokemon := dict_set (pokemon d) (pid (author m)) (Some pokemon_data),
                                   used_pokemon := insert (lower (name pokemon_data)) (used_pokemon d)\<rparr>)
                                m)))
          else Some (mgr, True))"

subsection \<open>Runs\<close>

datatype event = Message world message | Reaction reaction player

fun step :: "md5_fun \<Rightarrow> manager \<Rightarrow> event \<Rightarrow> manager option" where
  "step md5 mgr (Message w m) = map_option fst (handle_message md5 w mgr m)"
| "step md5 mgr (Reaction r user) = Some (handle_reaction mgr r user)"

fun run :: "md5_fun \<Rightarrow> manager \<Rightarrow> event list \<Rightarrow> manager option" where
  "run md5 mgr [] = Some mgr"
| "run md5 mgr (e # es) = (case step md5 mgr e of None \<Rightarrow> None | Some mgr' \<Rightarrow> run md5 mgr' es)"

section \<open>Well-formed duels\<close>

text \<open>What \<^verbatim>\<open>start_duel\<close> and \<^verbatim>\<open>Duel.__init__\<close> establish and every handler keeps: two or
  three participants with different ids, the three per-participant dictionaries keyed by
  exactly those ids in participant order, and a round count of 3, 5 or 7.\<close>

definition duel_ok :: "duel \<Rightarrow> bool" where
  "duel_ok d \<longleftrightarrow>
     (length (players d) = 2 \<or> length (players d) = 3) \<and>
     is_triple_duel d = (length (players d) = 3) \<and>
     distinct (map pid (players d)) \<and>
     dict_keys (scores d) = map pid (players d) \<and>
     dict_keys (ready_status d) = map pid (players d) \<and>
     dict_keys (pokemon d) = map pid (players d) \<and>
     (rounds d = 3 \<or> rounds d = 5 \<or> rounds d = 7)"

definition active_ok :: "duel \<Rightarrow> bool" where
  "active_ok d \<longleftrightarrow> duel_ok d \<and> \<not> duel_ended d \<and> \<not> threshold_reached d"

definition completed_ok :: "duel \<Rightarrow> bool" where
  "completed_ok d \<longleftrightarrow> duel_ok d \<and> duel_ended d \<and> threshold_reached d"

text \<open>A manager state between two handler calls: every registered match is well formed,
  and a channel is never both active and completed (the platform hands out a fresh channel
  for every match).\<close>

definition manager_ok :: "manager \<Rightarrow> bool" where
  "manager_ok mgr \<longleftrightarrow>
     (\<forall>ch d. active_duels mgr ch = Some d \<longrightarrow> active_ok d) \<and>
     (\<forall>ch d. completed_duels mgr ch = Some d \<longrightarrow> completed_ok d \<and> active_duels mgr ch = None)"

subsection \<open>Facts about dictionaries\<close>

lemma dict_keys_dict_set_in:
  "k \<in> set (dict_keys d) \<Longrightarrow> dict_keys (dict_set d k v) = dict_keys d"
  by (induction d) (force simp: dict_keys_def)+

lemma dict_set_notin:
  "k \<notin> set (dict_keys d) \<Longrightarrow> dict_set d k v = d @ [(k, v)]"
  by (induction d) (auto simp: dict_keys_def)

lemma dict_get_dict_set:
  "dict_get (dict_set d k v) k' = (if k' = k then Some v else dict_get d k')"
  by (induction d) (auto simp: dict_get_def)

lemma dict_get_Some_iff: "(\<exists>v. dict_get d k = Some v) \<longleftrightarrow> k \<in> set (dict_keys d)"
  by (induction d) (auto simp: dict_get_def dict_keys_def)

lemma dict_get_in_keys: "k \<in> set (dict_keys d) \<Longrightarrow> \<exists>v. dict_get d k = Some v"
  using dict_get_Some_iff by metis

lemma fold_dict_set_distinct:
  "distinct (map fst (acc @ kvs)) \<Longrightarrow> fold (\<lambda>(k, v) d. dict_set d k v) kvs acc = acc @ kvs"
proof (induction kvs arbitrary: acc)
  case Nil
  then show ?case by simp
next
  case (Cons kv kvs)
  obtain k v where kv: "kv = (k, v)" by (cases kv)
  have "k \<notin> set (dict_keys acc)" using Cons.prems by (auto simp: kv dict_keys_def)
  then have "dict_set acc k v = acc @ [(k, v)]" by (rule dict_set_notin)
  moreover have "distinct (map fst ((acc @ [(k, v)]) @ kvs))" using Cons.prems by (simp add: kv)
  ultimately show ?case using Cons.IH [of "acc @ [(k, v)]"] by (simp add: kv)
qed

lemma dict_comp_distinct:
  "distinct (map pid ps) \<Longrightarrow> dict_comp ps v = map (\<lambda>p. (pid p, v)) ps"
  using fold_dict_set_distinct [of "[]" "map (\<lambda>p. (pid p, v)) ps"]
  by (simp add: dict_comp_def dict_of_def comp_def)

lemma dict_keys_dict_comp:
  "distinct (map pid ps) \<Longrightarrow> dict_keys (dict_comp ps v) = map pid ps"
  by (simp add: dict_comp_distinct dict_keys_def comp_def)

lemma dict_values_dict_comp:
  "distinct (map pid ps) \<Longrightarrow> dict_values (dict_comp ps v) = map (\<lambda>_. v) ps"
  by (simp add: dict_comp_distinct dict_values_def comp_def)

lemma set_dict_values:
  "distinct (dict_keys d) \<Longrightarrow> set (dict_values d) = {v. \<exists>k. dict_get d k = Some v}"
  by (auto simp: dict_values_def dict_keys_def dict_get_def intro: rev_image_eqI)

lemma distinct_dict_keys_dict_set:
  assumes "distinct (dict_keys d)"
  shows "distinct (dict_keys (dict_set d k v))"
proof (cases "k \<in> set (dict_keys d)")
  case True
  then show ?thesis using assms by (simp only: dict_keys_dict_set_in)
next
  case False
  then have "dict_set d k v = d @ [(k, v)]" by (rule dict_set_notin)
  then show ?thesis using assms False by (simp add: dict_keys_def)
qed

lemma dict_incr_Some:
  "k \<in> set (dict_keys d) \<Longrightarrow> \<exists>v. dict_get d k = Some v \<and> dict_incr d k = Some (dict_set d k (v + 1))"
  using dict_get_in_keys [of k d] by (auto simp: dict_incr_def)

subsection \<open>The winner of a match and the history store\<close>

text \<open>\<open>first_max xs b\<close>: the entry \<open>b\<close> of \<open>xs\<close> has the greatest value, and every entry
  before it has a smaller one.\<close>

definition first_max :: "('k \<times> int) list \<Rightarrow> 'k \<times> int \<Rightarrow> bool" where
  "first_max xs b \<longleftrightarrow>
     (\<exists>pre post. xs = pre @ b # post \<and> (\<forall>x\<in>set pre. snd x < snd b) \<and> (\<forall>x\<in>set post. snd x \<le> snd b))"

lemma first_max_fold:
  "first_max done best \<Longrightarrow>
     first_max (done @ rest) (fold (\<lambda>kv' best. if snd best < snd kv' then kv' else best) rest best)"
proof (induction rest arbitrary: "done" best)
  case Nil
  then show ?case by simp
next
  case (Cons x rest)
  from Cons.prems obtain pre post where
    d: "done = pre @ best # post" and pre: "\<forall>y\<in>set pre. snd y < snd best"
    and post: "\<forall>y\<in>set post. snd y \<le> snd best"
    unfolding first_max_def by blast
  show ?case
  proof (cases "snd best < snd x")
    case True
    have "first_max (done @ [x]) x"
      unfolding first_max_def
      apply (rule exI [of _ "done"], rule exI [of _ "[]"])
      using d pre post True by auto
    from Cons.IH [OF this] True show ?thesis by simp
  next
    case False
    have "first_max (done @ [x]) best"
      unfolding first_max_def
      apply (rule exI [of _ pre], rule exI [of _ "post @ [x]"])
      using d pre post False by auto
    from Cons.IH [OF this] False show ?thesis by simp
  qed
qed

lemma py_max_key_first_max:
  "d \<noteq> [] \<Longrightarrow> \<exists>b. py_max_key d = Some (fst b) \<and> first_max d b"
proof (cases d)
  case Nil
  then show "d \<noteq> [] \<Longrightarrow> ?thesis" by simp
next
  case (Cons kv rest)
  define b where "b = fold (\<lambda>kv' best. if snd best < snd kv' then kv' else best) rest kv"
  have "first_max [kv] kv" unfolding first_max_def by (rule exI [of _ "[]"], rule exI [of _ "[]"]) simp
  from first_max_fold [OF this, of rest] have "first_max d b" by (simp add: b_def Cons)
  moreover have "py_max_key d = Some (fst b)" by (simp add: py_max_key_def Cons b_def)
  ultimately show ?thesis by blast
qed

lemma find_pid:
  "k \<in> set (map pid ps) \<Longrightarrow> \<exists>p. find (\<lambda>player. pid player = k) ps = Some p \<and> pid p = k \<and> p \<in> set ps"
  by (induction ps) auto

lemma fold_append_record:
  "distinct (map pid ps) \<Longrightarrow>
     fold (append_record r) ps h =
       (\<lambda>k. if k \<in> set (map pid ps) then Some ((case h k of None \<Rightarrow> [] | Some l \<Rightarrow> l) @ [r]) else h k)"
proof (induction ps arbitrary: h)
  case Nil
  then show ?case by simp
next
  case (Cons p ps)
  then show ?case
    by (auto simp: append_record_def fun_eq_iff)
qed

lemma py_last20_short: "length l \<le> 20 \<Longrightarrow> py_last20 l = l"
  by (simp add: py_last20_def)

lemma trim_history_Some:
  "h (pid p) = Some l \<Longrightarrow> trim_history p h = Some (h(pid p \<mapsto> py_last20 l))"
  by (auto simp: trim_history_def py_last20_short fun_eq_iff)

lemma fold_opt_trim_history:
  "distinct (map pid ps) \<Longrightarrow> \<forall>p\<in>set ps. h (pid p) \<noteq> None \<Longrightarrow>
     fold_opt trim_history ps h =
       Some (\<lambda>k. if k \<in> set (map pid ps) then map_option py_last20 (h k) else h k)"
proof (induction ps arbitrary: h)
  case Nil
  then show ?case by simp
next
  case (Cons p ps)
  from Cons.prems obtain l where l: "h (pid p) = Some l" by auto
  define h' where "h' = h(pid p \<mapsto> py_last20 l)"
  have step: "trim_history p h = Some h'" using l by (simp add: trim_history_Some h'_def)
  have d: "distinct (map pid ps)" and np: "pid p \<notin> set (map pid ps)" using Cons.prems by auto
  have ne: "\<forall>q\<in>set ps. h' (pid q) \<noteq> None" using Cons.prems by (auto simp: h'_def)
  have "fold_opt trim_history ps h' =
      Some (\<lambda>k. if k \<in> set (map pid ps) then map_option py_last20 (h' k) else h' k)"
    by (rule Cons.IH [OF d ne])
  moreover have "(\<lambda>k. if k \<in> set (map pid ps) then map_option py_last20 (h' k) else h' k) =
      (\<lambda>k. if k \<in> set (map pid (p # ps)) then map_option py_last20 (h k) else h k)"
    using np l by (auto simp: h'_def fun_eq_iff)
  ultimately show ?case by (simp add: step)
qed

lemma length_filter_others:
  "distinct (map pid ps) \<Longrightarrow> k \<in> set (map pid ps) \<Longrightarrow>
     length (filter (\<lambda>p. pid p \<noteq> k) ps) = length ps - 1"
proof (induction ps)
  case Nil
  then show ?case by simp
next
  case (Cons p ps)
  show ?case
  proof (cases "pid p = k")
    case True
    have "pid p \<notin> set (map pid ps)" using Cons.prems by simp
    then have "\<forall>q\<in>set ps. pid q \<noteq> k" unfolding True [symmetric] by (metis image_eqI set_map)
    then have "filter (\<lambda>q. pid q \<noteq> k) ps = ps" by (simp add: filter_id_conv)
    then show ?thesis using True by simp
  next
    case False
    then have "length (filter (\<lambda>p. pid p \<noteq> k) ps) = length ps - 1" using Cons by auto
    moreover have "ps \<noteq> []" using False Cons.prems by auto
    ultimately show ?thesis using False by (cases ps) auto
  qed
qed

lemma make_duel_record_Some:
  assumes "duel_ok d"
  shows "\<exists>r. make_duel_record w d wid losers = Some r \<and> hr_winner r = wid \<and>
           hr_losers r = (if is_triple_duel d then map pid losers
                          else (case losers of [] \<Rightarrow> [] | l # _ \<Rightarrow> [pid l])) \<and>
           hr_players r = map pid (players d) \<and>
           map Some (hr_scores r) = map (\<lambda>p. dict_get (scores d) (pid p)) (players d)"
proof -
  from assms have len: "length (players d) = 2 \<or> length (players d) = 3"
    and tr: "is_triple_duel d = (length (players d) = 3)"
    and keys: "dict_keys (scores d) = map pid (players d)"
    by (simp_all add: duel_ok_def)
  have has: "\<And>p. p \<in> set (players d) \<Longrightarrow> \<exists>v. dict_get (scores d) (pid p) = Some v"
    using keys by (intro dict_get_in_keys) simp
  from len show ?thesis
  proof
    assume "length (players d) = 2"
    then obtain p1 p2 where ps: "players d = [p1, p2]"
      by (auto simp: length_Suc_conv numeral_2_eq_2)
    obtain v1 v2 where "dict_get (scores d) (pid p1) = Some v1" "dict_get (scores d) (pid p2) = Some v2"
      using has [of p1] has [of p2] ps by auto
    then show ?thesis using ps tr by (simp add: make_duel_record_def)
  next
    assume "length (players d) = 3"
    then obtain p1 p2 p3 where ps: "players d = [p1, p2, p3]"
      by (auto simp: length_Suc_conv numeral_3_eq_3)
    obtain v1 v2 v3 where "dict_get (scores d) (pid p1) = Some v1"
      "dict_get (scores d) (pid p2) = Some v2" "dict_get (scores d) (pid p3) = Some v3"
      using has [of p1] has [of p2] has [of p3] ps by auto
    then show ?thesis using ps tr by (simp add: make_duel_record_def)
  qed
qed


text \<open>The history store after \<^verbatim>\<open>add_to_history\<close> has appended the record \<open>r\<close> for the
  participants of \<open>d\<close>.\<close>

definition history_after :: "duel_record \<Rightarrow> duel \<Rightarrow> (int \<rightharpoonup> duel_record list) \<Rightarrow> (int \<rightharpoonup> duel_record list)" where
  "history_after r d h =
     (\<lambda>k. if k \<in> set (map pid (players d))
          then Some (py_last20 ((case h k of None \<Rightarrow> [] | Some l \<Rightarrow> l) @ [r]))
          else h k)"

lemma add_to_history_Some:
  assumes "duel_ok d"
  shows "\<exists>r. make_duel_record w d wid losers = Some r \<and>
           add_to_history w mgr d wid losers =
             Some (mgr\<lparr>duel_history := history_after r d (duel_history mgr)\<rparr>)"
proof -
  obtain r where r: "make_duel_record w d wid losers = Some r"
    using make_duel_record_Some [OF assms] by blast
  have dist: "distinct (map pid (players d))" using assms by (simp add: duel_ok_def)
  define h1 where "h1 = fold (append_record r) (players d) (duel_history mgr)"
  have h1: "h1 = (\<lambda>k. if k \<in> set (map pid (players d))
                      then Some ((case duel_history mgr k of None \<Rightarrow> [] | Some l \<Rightarrow> l) @ [r])
                      else duel_history mgr k)"
    unfolding h1_def by (rule fold_append_record [OF dist])
  have ne: "\<forall>p\<in>set (players d). h1 (pid p) \<noteq> None" by (simp add: h1)
  have "fold_opt trim_history (players d) h1 =
      Some (\<lambda>k. if k \<in> set (map pid (players d)) then map_option py_last20 (h1 k) else h1 k)"
    by (rule fold_opt_trim_history [OF dist ne])
  moreover have "(\<lambda>k. if k \<in> set (map pid (players d)) then map_option py_last20 (h1 k) else h1 k)
      = history_after r d (duel_history mgr)"
    by (auto simp: h1 history_after_def fun_eq_iff)
  ultimately show ?thesis
    using r by (simp add: add_to_history_def h1_def)
qed

lemma end_duel_Some:
  assumes "duel_ok d"
  shows "\<exists>b r. first_max (scores d) b \<and>
           make_duel_record w d (fst b) (filter (\<lambda>p. pid p \<noteq> fst b) (players d)) = Some r \<and>
           end_duel w mgr d ch =
             Some (mgr\<lparr>duel_history := history_after r d (duel_history mgr),
                       completed_duels := (completed_duels mgr)(ch \<mapsto> d\<lparr>duel_ended := True\<rparr>),
                       active_duels := (active_duels mgr)(ch := None)\<rparr>)"
proof -
  from assms have len: "length (players d) = 2 \<or> length (players d) = 3"
    and tr: "is_triple_duel d = (length (players d) = 3)"
    and dist: "distinct (map pid (players d))"
    and keys: "dict_keys (scores d) = map pid (players d)"
    by (simp_all add: duel_ok_def)
  have "scores d \<noteq> []" using keys len by (auto simp: dict_keys_def)
  then obtain b where b: "py_max_key (scores d) = Some (fst b)" and fm: "first_max (scores d) b"
    using py_max_key_first_max by blast
  have "b \<in> set (scores d)" using fm by (auto simp: first_max_def)
  then have "fst b \<in> set (dict_keys (scores d))" by (simp add: dict_keys_def)
  then have inp: "fst b \<in> set (map pid (players d))" by (simp only: keys)
  then obtain winner where win: "find (\<lambda>player. pid player = fst b) (players d) = Some winner"
    using find_pid by blast
  define losers where "losers = filter (\<lambda>p. pid p \<noteq> fst b) (players d)"
  have ll: "length losers = length (players d) - 1"
    unfolding losers_def by (rule length_filter_others [OF dist inp])
  obtain r where r: "make_duel_record w d (fst b) losers = Some r"
    and a: "add_to_history w mgr d (fst b) losers =
             Some (mgr\<lparr>duel_history := history_after r d (duel_history mgr)\<rparr>)"
    using add_to_history_Some [OF assms] by blast
  have n0: "py_nth losers 0 \<noteq> None" using ll len by (auto simp: py_nth_def)
  have n1: "is_triple_duel d \<Longrightarrow> py_nth losers 1 \<noteq> None" using ll tr by (auto simp: py_nth_def)
  have "end_duel w mgr d ch =
      Some (mgr\<lparr>duel_history := history_after r d (duel_history mgr),
                completed_duels := (completed_duels mgr)(ch \<mapsto> d\<lparr>duel_ended := True\<rparr>),
                active_duels := (active_duels mgr)(ch := None)\<rparr>)"
    using b win a n0 n1 by (auto simp: end_duel_def losers_def [symmetric])
  then show ?thesis using fm r unfolding losers_def by blast
qed

text \<open>\<^verbatim>\<open>get_player_history\<close>: \<^verbatim>\<open>self.duel_history.get(str(player_id), [])\<close>.\<close>

definition get_player_history :: "manager \<Rightarrow> int \<Rightarrow> duel_record list" where
  "get_player_history mgr player_id =
     (case duel_history mgr player_id of None \<Rightarrow> [] | Some l \<Rightarrow> l)"

lemma length_py_last20: "length (py_last20 l) \<le> 20"
  by (simp add: py_last20_def)

lemma py_last20_full: "length l = 20 \<Longrightarrow> py_last20 (l @ [r]) = tl l @ [r]"
  by (cases l) (simp_all add: py_last20_def)

text \<open>
  Claim C9: \<open>add_to_history\<close> never raises on a well-formed match; afterwards the history
  of every participant holds at most 20 records and is the last 20 of the old history
  followed by the new record, so that a history that already held 20 records loses its
  oldest one and keeps the others in order, the new record last. The histories of all other
  users are untouched.
\<close>

theorem history_keeps_last_20:
  assumes "duel_ok d" and "p \<in> set (players d)"
  shows "\<exists>mgr' r.
           add_to_history w mgr d winner_id losers = Some mgr' \<and>
           make_duel_record w d winner_id losers = Some r \<and>
           length (get_player_history mgr' (pid p)) \<le> 20 \<and>
           get_player_history mgr' (pid p) = py_last20 (get_player_history mgr (pid p) @ [r]) \<and>
           (length (get_player_history mgr (pid p)) = 20 \<longrightarrow>
              get_player_history mgr' (pid p) = tl (get_player_history mgr (pid p)) @ [r]) \<and>
           (\<forall>k. k \<notin> set (map pid (players d)) \<longrightarrow> duel_history mgr' k = duel_history mgr k)"
proof -
  obtain r where r: "make_duel_record w d winner_id losers = Some r"
    and a: "add_to_history w mgr d winner_id losers =
              Some (mgr\<lparr>duel_history := history_after r d (duel_history mgr)\<rparr>)"
    using add_to_history_Some [OF assms(1)] by blast
  define mgr' where "mgr' = mgr\<lparr>duel_history := history_after r d (duel_history mgr)\<rparr>"
  have new: "get_player_history mgr' (pid p) = py_last20 (get_player_history mgr (pid p) @ [r])"
    using assms(2) by (simp add: mgr'_def get_player_history_def history_after_def)
  have other: "\<forall>k. k \<notin> set (map pid (players d)) \<longrightarrow> duel_history mgr' k = duel_history mgr k"
    by (simp add: mgr'_def history_after_def)
  have "length (get_player_history mgr' (pid p)) \<le> 20"
    unfolding new by (rule length_py_last20)
  moreover have "length (get_player_history mgr (pid p)) = 20 \<longrightarrow>
      get_player_history mgr' (pid p) = tl (get_player_history mgr (pid p)) @ [r]"
    unfolding new by (simp add: py_last20_full)
  ultimately show ?thesis using r a new other unfolding mgr'_def by blast
qed

text \<open>
  Claim C10: \<open>end_duel\<close> never raises on a well-formed match. The declared winner is the
  key of the first entry of the score dictionary (which is in participant order) whose
  score is maximal: every earlier participant has a strictly smaller score, every later one
  a score that is not greater. All other participants, including one with an equal score,
  are the losers written to the history record, which becomes the last record of every
  participant; the match moves to the completed registry with its ended flag set.
\<close>

theorem end_duel_declares_first_maximal:
  assumes "duel_ok d"
  shows "\<exists>mgr' b r.
           end_duel w mgr d ch = Some mgr' \<and>
           first_max (scores d) b \<and>
           dict_keys (scores d) = map pid (players d) \<and>
           make_duel_record w d (fst b) (filter (\<lambda>p. pid p \<noteq> fst b) (players d)) = Some r \<and>
           hr_winner r = fst b \<and>
           hr_losers r = map pid (filter (\<lambda>p. pid p \<noteq> fst b) (players d)) \<and>
           (\<forall>p\<in>set (players d). get_player_history mgr' (pid p) \<noteq> [] \<and>
                                 last (get_player_history mgr' (pid p)) = r) \<and>
           completed_duels mgr' ch = Some (d\<lparr>duel_ended := True\<rparr>) \<and>
           active_duels mgr' ch = None"
proof -
  obtain b r where fm: "first_max (scores d) b"
    and r: "make_duel_record w d (fst b) (filter (\<lambda>p. pid p \<noteq> fst b) (players d)) = Some r"
    and e: "end_duel w mgr d ch =
             Some (mgr\<lparr>duel_history := history_after r d (duel_history mgr),
                       completed_duels := (completed_duels mgr)(ch \<mapsto> d\<lparr>duel_ended := True\<rparr>),
                       active_duels := (active_duels mgr)(ch := None)\<rparr>)"
    using end_duel_Some [OF assms] by blast
  define mgr' where "mgr' = mgr\<lparr>duel_history := history_after r d (duel_history mgr),
                       completed_duels := (completed_duels mgr)(ch \<mapsto> d\<lparr>duel_ended := True\<rparr>),
                       active_duels := (active_duels mgr)(ch := None)\<rparr>"
  define losers where "losers = filter (\<lambda>p. pid p \<noteq> fst b) (players d)"
  from assms have len: "length (players d) = 2 \<or> length (players d) = 3"
    and tr: "is_triple_duel d = (length (players d) = 3)"
    and dist: "distinct (map pid (players d))"
    and keys: "dict_keys (scores d) = map pid (players d)"
    by (simp_all add: duel_ok_def)
  have "b \<in> set (scores d)" using fm by (auto simp: first_max_def)
  then have "fst b \<in> set (dict_keys (scores d))" by (simp add: dict_keys_def)
  then have inp: "fst b \<in> set (map pid (players d))" by (simp only: keys)
  have ll: "length losers = length (players d) - 1"
    unfolding losers_def by (rule length_filter_others [OF dist inp])
  have rec: "hr_winner r = fst b" "hr_losers r = (if is_triple_duel d then map pid losers
                          else (case losers of [] \<Rightarrow> [] | l # _ \<Rightarrow> [pid l]))"
    using make_duel_record_Some [OF assms, of w "fst b" losers] r by (auto simp: losers_def)
  have "hr_losers r = map pid losers"
  proof (cases "is_triple_duel d")
    case True
    then show ?thesis using rec by simp
  next
    case False
    then have "length losers = 1" using ll len tr by auto
    then obtain l where "losers = [l]" by (cases losers) auto
    then show ?thesis using rec False by simp
  qed
  moreover have "\<forall>p\<in>set (players d). get_player_history mgr' (pid p) \<noteq> [] \<and>
                                 last (get_player_history mgr' (pid p)) = r"
    by (simp add: mgr'_def get_player_history_def history_after_def py_last20_def)
  moreover have "completed_duels mgr' ch = Some (d\<lparr>duel_ended := True\<rparr>)" "active_duels mgr' ch = None"
    by (simp_all add: mgr'_def)
  ultimately show ?thesis using fm r e rec(1) keys unfolding mgr'_def losers_def by blast
qed

subsection \<open>The point of a round\<close>

text \<open>\<open>strict_best bs i\<close>: participant \<open>i\<close> has the strictly highest battle score.\<close>

definition strict_best :: "real list \<Rightarrow> nat \<Rightarrow> bool" where
  "strict_best bs i \<longleftrightarrow> i < length bs \<and> (\<forall>j<length bs. j \<noteq> i \<longrightarrow> bs ! j < bs ! i)"

lemma strict_best_2:
  "strict_best [s0, s1] i \<longleftrightarrow> (i = 0 \<and> s1 < s0) \<or> (i = 1 \<and> s0 < s1)"
  unfolding strict_best_def
  by (auto simp: less_Suc_eq nth_Cons' numeral_2_eq_2)

lemma strict_best_3:
  "strict_best [s0, s1, s2] i \<longleftrightarrow>
     (i = 0 \<and> s1 < s0 \<and> s2 < s0) \<or> (i = 1 \<and> s0 < s1 \<and> s2 < s1) \<or> (i = 2 \<and> s0 < s2 \<and> s1 < s2)"
  unfolding strict_best_def
  by (auto simp: less_Suc_eq nth_Cons' numeral_3_eq_3)

lemma upt3: "[0..<3] = [0, 1, 2]" by (simp add: upt_rec)

lemma decide_round_2:
  assumes "players d = [p0, p1]" "\<not> is_triple_duel d"
    "selected d (pid p0) = Some n0" "selected d (pid p1) = Some n1"
    "dict_get (scores d) (pid p0) = Some v0" "dict_get (scores d) (pid p1) = Some v1"
  shows "decide_round d [s0, s1] =
     Some (\<lparr>rd_pokemon = [name n0, name n1], rd_scores = [s0, s1],
            rd_winner = (if s1 < s0 then pname p0 else if s0 < s1 then pname p1 else tie_marker)\<rparr>,
           (if s1 < s0 then d\<lparr>scores := dict_set (scores d) (pid p0) (v0 + 1)\<rparr>
            else if s0 < s1 then d\<lparr>scores := dict_set (scores d) (pid p1) (v1 + 1)\<rparr> else d))"
  using assms by (simp add: decide_round_def py_nth_def dict_incr_def)

lemma decide_round_3:
  assumes "players d = [p0, p1, p2]" "is_triple_duel d"
    "selected d (pid p0) = Some n0" "selected d (pid p1) = Some n1" "selected d (pid p2) = Some n2"
    "dict_get (scores d) (pid p0) = Some v0" "dict_get (scores d) (pid p1) = Some v1"
    "dict_get (scores d) (pid p2) = Some v2"
  shows "decide_round d [s0, s1, s2] =
     Some (\<lparr>rd_pokemon = [name n0, name n1, name n2], rd_scores = [s0, s1, s2],
            rd_winner = (if s1 < s0 \<and> s2 < s0 then pname p0
                         else if s0 < s1 \<and> s2 < s1 then pname p1
                         else if s0 < s2 \<and> s1 < s2 then pname p2 else tie_marker)\<rparr>,
           (if s1 < s0 \<and> s2 < s0 then d\<lparr>scores := dict_set (scores d) (pid p0) (v0 + 1)\<rparr>
            else if s0 < s1 \<and> s2 < s1 then d\<lparr>scores := dict_set (scores d) (pid p1) (v1 + 1)\<rparr>
            else if s0 < s2 \<and> s1 < s2 then d\<lparr>scores := dict_set (scores d) (pid p2) (v2 + 1)\<rparr>
            else d))"
  using assms
  by (auto simp: decide_round_def py_nth_def dict_incr_def py_max_def upt3)

subsection \<open>The penalty loop\<close>

lemma fold_opt_award:
  "distinct (map pid ps) \<Longrightarrow> set (map pid ps) \<subseteq> set (dict_keys sc) \<Longrightarrow>
   \<exists>sc'. fold_opt (\<lambda>opponent sc. if pid opponent \<noteq> a then dict_incr sc (pid opponent) else Some sc) ps sc
            = Some sc' \<and>
         dict_keys sc' = dict_keys sc \<and>
         (\<forall>k. dict_get sc' k =
                (if k \<in> set (map pid ps) \<and> k \<noteq> a then map_option (\<lambda>v. v + 1) (dict_get sc k)
                 else dict_get sc k))"
proof (induction ps arbitrary: sc)
  case Nil
  then show ?case by simp
next
  case (Cons p ps)
  have d: "distinct (map pid ps)" and np: "pid p \<notin> set (map pid ps)"
    and inp: "pid p \<in> set (dict_keys sc)" and sub: "set (map pid ps) \<subseteq> set (dict_keys sc)"
    using Cons.prems by auto
  show ?case
  proof (cases "pid p = a")
    case True
    from Cons.IH [OF d sub] obtain sc' where
      "fold_opt (\<lambda>opponent sc. if pid opponent \<noteq> a then dict_incr sc (pid opponent) else Some sc) ps sc = Some sc'"
      "dict_keys sc' = dict_keys sc"
      "\<forall>k. dict_get sc' k = (if k \<in> set (map pid ps) \<and> k \<noteq> a then map_option (\<lambda>v. v + 1) (dict_get sc k) else dict_get sc k)"
      by blast
    then show ?thesis using True by auto
  next
    case False
    obtain v where v: "dict_get sc (pid p) = Some v"
      and inc: "dict_incr sc (pid p) = Some (dict_set sc (pid p) (v + 1))"
      using dict_incr_Some [OF inp] by blast
    define sc1 where "sc1 = dict_set sc (pid p) (v + 1)"
    have k1: "dict_keys sc1 = dict_keys sc" unfolding sc1_def using inp by (rule dict_keys_dict_set_in)
    have sub1: "set (map pid ps) \<subseteq> set (dict_keys sc1)" using sub k1 by simp
    from Cons.IH [OF d sub1] obtain sc' where
      f: "fold_opt (\<lambda>opponent sc. if pid opponent \<noteq> a then dict_incr sc (pid opponent) else Some sc) ps sc1 = Some sc'"
      and k: "dict_keys sc' = dict_keys sc1"
      and g: "\<forall>k. dict_get sc' k = (if k \<in> set (map pid ps) \<and> k \<noteq> a then map_option (\<lambda>v. v + 1) (dict_get sc1 k) else dict_get sc1 k)"
      by blast
    have g1: "\<And>k. dict_get sc1 k = (if k = pid p then Some (v + 1) else dict_get sc k)"
      unfolding sc1_def by (rule dict_get_dict_set)
    have "\<forall>k. dict_get sc' k =
                (if k \<in> set (map pid (p # ps)) \<and> k \<noteq> a then map_option (\<lambda>v. v + 1) (dict_get sc k)
                 else dict_get sc k)"
      using g g1 np v False by auto
    then show ?thesis using f k k1 inc False by (auto simp: sc1_def)
  qed
qed

lemma award_opponents_Some:
  assumes "duel_ok d"
  shows "\<exists>sc. award_opponents a d = Some (d\<lparr>scores := sc\<rparr>) \<and>
           dict_keys sc = dict_keys (scores d) \<and>
           (\<forall>k. dict_get sc k =
                  (if k \<noteq> pid a then map_option (\<lambda>v. v + 1) (dict_get (scores d) k)
                   else dict_get (scores d) k))"
proof -
  from assms have dist: "distinct (map pid (players d))"
    and keys: "dict_keys (scores d) = map pid (players d)"
    by (simp_all add: duel_ok_def)
  have sub: "set (map pid (players d)) \<subseteq> set (dict_keys (scores d))" by (simp add: keys)
  from fold_opt_award [OF dist sub, of "pid a"] obtain sc where
    f: "fold_opt (\<lambda>opponent sc. if pid opponent \<noteq> pid a then dict_incr sc (pid opponent) else Some sc)
          (players d) (scores d) = Some sc"
    and k: "dict_keys sc = dict_keys (scores d)"
    and g: "\<forall>k. dict_get sc k = (if k \<in> set (map pid (players d)) \<and> k \<noteq> pid a
                 then map_option (\<lambda>v. v + 1) (dict_get (scores d) k) else dict_get (scores d) k)"
    by blast
  have none: "\<And>k. k \<notin> set (map pid (players d)) \<Longrightarrow> dict_get (scores d) k = None"
    using dict_get_Some_iff [of "scores d"] keys by (metis not_Some_eq)
  have "\<forall>k. dict_get sc k =
                  (if k \<noteq> pid a then map_option (\<lambda>v. v + 1) (dict_get (scores d) k)
                   else dict_get (scores d) k)"
    using g none by auto
  then show ?thesis using f k by (auto simp: award_opponents_def)
qed

lemma threshold_reached_iff:
  "distinct (dict_keys (scores d)) \<Longrightarrow>
     threshold_reached d \<longleftrightarrow> (\<exists>k v. dict_get (scores d) k = Some v \<and> needed_wins d \<le> v)"
  by (auto simp: threshold_reached_def list_ex_iff set_dict_values)

section \<open>Concrete matches\<close>

definition ash :: player where "ash = \<lparr>pid = 1, pname = ''Ash'', bot = False\<rparr>"
definition misty :: player where "misty = \<lparr>pid = 2, pname = ''Misty'', bot = False\<rparr>"
definition brock :: player where "brock = \<lparr>pid = 3, pname = ''Brock'', bot = False\<rparr>"

definition pikachu :: pokemon_data where
  "pikachu = \<lparr>hp = 35, attack = 55, defense = 40, special_attack = 50, special_defense = 50,
     speed = 90, name = ''Pikachu'', api_name = ''pikachu'', types = [''Electric'']\<rparr>"

definition charmander :: pokemon_data where
  "charmander = \<lparr>hp = 39, attack = 52, defense = 43, special_attack = 60, special_defense = 50,
     speed = 65, name = ''Charmander'', api_name = ''charmander'', types = [''Fire'']\<rparr>"

definition provider :: "string \<Rightarrow> pokemon_data option" where
  "provider s = (if s = ''pikachu'' then Some pikachu
                 else if s = ''charmander'' then Some charmander else None)"

definition world_at :: "real \<Rightarrow> world" where
  "world_at t = \<lparr>now = t, timestamp = ''2024-02-02'', get_pokemon_data = provider,
     get_evolution_stage = (\<lambda>s. 1)\<rparr>"

definition ready :: reaction where "ready = \<lparr>r_channel = 100, r_emoji = check_mark\<rparr>"

definition says :: "real \<Rightarrow> player \<Rightarrow> string \<Rightarrow> event" where
  "says t p s = Message (world_at t) \<lparr>m_channel = 100, author = p, content = s\<rparr>"

definition manager_with :: "duel \<Rightarrow> manager" where
  "manager_with d = \<lparr>active_duels = [100 \<mapsto> d], completed_duels = Map.empty,
     duel_history = Map.empty\<rparr>"

lemma pikachu_not_legendary: "\<not> is_legendary ''pikachu''"
  by (simp add: is_legendary_def LEGENDARY_POKEMON_def lower_def lower_char_def)

lemma lower_Pikachu: "lower ''Pikachu'' = ''pikachu''"
  by code_simp

lemma lower_Charmander: "lower ''Charmander'' = ''charmander''"
  by code_simp

lemmas model_defs = handle_reaction_def handle_message_def reject_selection_def award_opponents_def
  end_duel_def add_to_history_def make_duel_record_def append_record_def trim_history_def
  validate_pokemon_for_duel_def after_selection_def threshold_reached_def needed_wins_def
  dict_comp_def dict_of_def dict_get_def dict_keys_def dict_values_def dict_incr_def py_max_key_def
  py_nth_def py_last20_def player_in_def split_dash_first_def Duel_init_def

lemmas example_defs = ash_def misty_def brock_def pikachu_def charmander_def provider_def
  world_at_def ready_def says_def manager_with_def

lemma active_ok_Duel_init:
  assumes "length ps = 2 \<or> length ps = 3" "distinct (map pid ps)" "r = 3 \<or> r = 5 \<or> r = 7"
  shows "active_ok (Duel_init ps r ch dt)"
proof -
  have "needed_wins (Duel_init ps r ch dt) > 0"
    using assms(3) by (auto simp: needed_wins_def Duel_init_def)
  then have "\<not> threshold_reached (Duel_init ps r ch dt)"
    using assms(2) by (simp add: threshold_reached_def Duel_init_def dict_values_dict_comp list_ex_iff)
  then show ?thesis
    using assms by (simp add: active_ok_def duel_ok_def Duel_init_def dict_keys_dict_comp)
qed

subsection \<open>A full history store\<close>

definition old_record :: "nat \<Rightarrow> duel_record" where
  "old_record i = \<lparr>hr_timestamp = ''2024-01-01'', hr_players = [1, 2],
     hr_names = [''Ash'', ''Misty''], hr_scores = [2, 0], hr_rounds = int i,
     hr_duel_type = ''normal'', hr_winner = 1, hr_losers = [2], hr_is_triple = False\<rparr>"

definition full_store :: manager where
  "full_store = \<lparr>active_duels = Map.empty, completed_duels = Map.empty,
     duel_history = [1 \<mapsto> map old_record [0..<20]]\<rparr>"

text \<open>Ash holds records 0 to 19; after one more match he holds records 1 to 19 and the new
  one.\<close>

theorem history_keeps_last_20_witness:
  "duel_ok (Duel_init [ash, misty] 3 100 ''normal'') \<and>
   ash \<in> set (players (Duel_init [ash, misty] 3 100 ''normal'')) \<and>
   length (get_player_history full_store (pid ash)) = 20 \<and>
   (\<exists>mgr' r. add_to_history (world_at 1000) full_store (Duel_init [ash, misty] 3 100 ''normal'')
                 1 [misty] = Some mgr' \<and>
      make_duel_record (world_at 1000) (Duel_init [ash, misty] 3 100 ''normal'') 1 [misty] = Some r \<and>
      length (get_player_history mgr' (pid ash)) \<le> 20 \<and>
      get_player_history mgr' (pid ash) = map old_record [1..<20] @ [r])"
proof -
  have ok: "duel_ok (Duel_init [ash, misty] 3 100 ''normal'')"
    using active_ok_Duel_init [of "[ash, misty]" 3 100 "''normal''"]
    by (simp add: active_ok_def ash_def misty_def)
  have mem: "ash \<in> set (players (Duel_init [ash, misty] 3 100 ''normal''))"
    by (simp add: Duel_init_def)
  have old: "get_player_history full_store (pid ash) = map old_record [0..<20]"
    by (simp add: get_player_history_def full_store_def ash_def)
  have tl: "tl (map old_record [0..<20]) = map old_record [1..<20]"
    by (simp add: upt_rec)
  show ?thesis
    using history_keeps_last_20 [OF ok mem, of "world_at 1000" full_store 1 "[misty]"] ok mem
    by (auto simp: old tl)
qed

subsection \<open>Two penalties end a match of three with two equal scores\<close>

definition tied_duel :: duel where
  "tied_duel = (Duel_init [ash, misty, brock] 3 100 ''legendaries'')
                 \<lparr>scores := [(1, 0), (2, 2), (3, 2)]\<rparr>"

lemma duel_ok_tied_duel: "duel_ok tied_duel"
  by (simp add: tied_duel_def duel_ok_def Duel_init_def dict_comp_def dict_of_def dict_keys_def
      ash_def misty_def brock_def)

lemma first_max_tied: "first_max [(1, 0), (2, 2), (3::int, 2::int)] b \<Longrightarrow> b = (2, 2)"
  by (auto simp: first_max_def Cons_eq_append_conv)

text \<open>In a legendary-only match of three and best of 3, Ash twice submits Pikachu, which is
  not legendary. Each time Misty and Brock gain a point; the second penalty brings both to
  2, the match ends, and Misty, who comes first in the participant list, is the winner,
  Brock being recorded as a loser with the same score.\<close>

lemma double_penalty_run:
  "run md5 (manager_with (Duel_init [ash, misty, brock] 3 100 ''legendaries''))
     [Reaction ready ash, Reaction ready misty, Reaction ready brock, says 1000 ash ''pikachu'',
      Reaction ready ash, Reaction ready misty, Reaction ready brock, says 2000 ash ''pikachu'']
   = Some \<lparr>active_duels = Map.empty,
           completed_duels = [100 \<mapsto> tied_duel\<lparr>countdown_active := True, selection_phase := True,
                                 waiting_for_selection := True, duel_ended := True\<rparr>],
           duel_history =
             (let r = \<lparr>hr_timestamp = ''2024-02-02'', hr_players = [1, 2, 3],
                       hr_names = [''Ash'', ''Misty'', ''Brock''], hr_scores = [0, 2, 2],
                       hr_rounds = 3, hr_duel_type = ''legendaries'', hr_winner = 2,
                       hr_losers = [1, 3], hr_is_triple = True\<rparr>
              in [1 \<mapsto> [r], 2 \<mapsto> [r], 3 \<mapsto> [r]])\<rparr>"
  by (simp add: tied_duel_def example_defs model_defs pikachu_not_legendary lower_Pikachu Let_def)

theorem end_duel_declares_first_maximal_witness:
  "duel_ok tied_duel \<and>
   (\<exists>mgr' r. end_duel (world_at 2000) (manager_with tied_duel) tied_duel 100 = Some mgr' \<and>
      hr_winner r = 2 \<and> hr_losers r = [1, 3] \<and> hr_scores r = [0, 2, 2] \<and>
      last (get_player_history mgr' 3) = r \<and>
      completed_duels mgr' 100 = Some (tied_duel\<lparr>duel_ended := True\<rparr>))"
proof -
  from end_duel_declares_first_maximal [OF duel_ok_tied_duel, of "world_at 2000"
      "manager_with tied_duel" 100]
  obtain mgr' b r where e: "end_duel (world_at 2000) (manager_with tied_duel) tied_duel 100 = Some mgr'"
    and fm: "first_max (scores tied_duel) b"
    and r: "make_duel_record (world_at 2000) tied_duel (fst b)
              (filter (\<lambda>p. pid p \<noteq> fst b) (players tied_duel)) = Some r"
    and w: "hr_winner r = fst b"
    and l: "hr_losers r = map pid (filter (\<lambda>p. pid p \<noteq> fst b) (players tied_duel))"
    and h: "\<forall>p\<in>set (players tied_duel). get_player_history mgr' (pid p) \<noteq> [] \<and>
                                 last (get_player_history mgr' (pid p)) = r"
    and c: "completed_duels mgr' 100 = Some (tied_duel\<lparr>duel_ended := True\<rparr>)"
    by blast
  have b: "b = (2, 2)" using fm by (intro first_max_tied) (simp add: tied_duel_def)
  have "hr_winner r = 2" using w b by simp
  moreover have "hr_losers r = [1, 3]"
    using l b by (simp add: tied_duel_def Duel_init_def ash_def misty_def brock_def)
  moreover have "hr_scores r = [0, 2, 2]"
    using r b by (auto simp: make_duel_record_def tied_duel_def Duel_init_def ash_def misty_def
        brock_def dict_get_def)
  moreover have "last (get_player_history mgr' 3) = r"
    using h by (simp add: tied_duel_def Duel_init_def brock_def)
  ultimately show ?thesis using e c duel_ok_tied_duel by blast
qed

end
